theory Spec2Isabelle
  imports Main
begin

section \<open>JavaScript values of the documented parameter types\<close>

text \<open>
  The constructor of \<^verbatim>\<open>lib/solid/response.js\<close> documents its parameters as an
  \<^verbatim>\<open>XMLHttpRequest\<close> and a \<^verbatim>\<open>String\<close>, and guards both against falsy values.
  A value of a documented type that may also be \<^verbatim>\<open>undefined\<close> or \<^verbatim>\<open>null\<close> is a
  \<open>nullable\<close>; a property that was never assigned reads as \<open>Undefined\<close>.
\<close>

datatype 'a nullable = Undefined | Null | Val 'a

text \<open>The only exception the code can meet: a member access on \<^verbatim>\<open>null\<close> or \<^verbatim>\<open>undefined\<close>.\<close>

datatype error = TypeError

text \<open>Truthiness: an object is always truthy, a string is truthy unless it is empty.\<close>

definition truthy_object :: "'a nullable \<Rightarrow> bool" where
  "truthy_object v = (case v of Val _ \<Rightarrow> True | _ \<Rightarrow> False)"

definition truthy_string :: "string nullable \<Rightarrow> bool" where
  "truthy_string v = (case v of Val s \<Rightarrow> s \<noteq> [] | _ \<Rightarrow> False)"

text \<open>Sequencing of evaluations that may throw: the first exception wins.\<close>

definition andThen :: "error + 'a \<Rightarrow> ('a \<Rightarrow> error + 'b) \<Rightarrow> error + 'b" where
  "andThen r f = (case r of Inl e \<Rightarrow> Inl e | Inr v \<Rightarrow> f v)"

text \<open>\<^verbatim>\<open>o.p\<close> and \<^verbatim>\<open>o.m(...)\<close> throw a TypeError when \<^verbatim>\<open>o\<close> is null or undefined.\<close>

definition member :: "'a nullable \<Rightarrow> error + 'a" where
  "member v = (case v of Val x \<Rightarrow> Inr x | _ \<Rightarrow> Inl TypeError)"

text \<open>\<^verbatim>\<open>o[k]\<close> on a plain object: the stored value, or \<^verbatim>\<open>undefined\<close> for a missing key.\<close>

definition propertyValue :: "(string \<rightharpoonup> 'v) \<Rightarrow> string \<Rightarrow> 'v nullable" where
  "propertyValue m k = (case m k of None \<Rightarrow> Undefined | Some v \<Rightarrow> Val v)"

definition getProperty :: "(string \<rightharpoonup> 'v) nullable \<Rightarrow> string \<Rightarrow> error + 'v nullable" where
  "getProperty obj k = andThen (member obj) (\<lambda>m. Inr (propertyValue m k))"

text \<open>
  \<^verbatim>\<open>String.prototype.toLowerCase\<close>. A character of a \<open>string\<close> stands for the code
  unit of that number, U+0000 to U+00FF, which is also how a header value reaches the
  code. Of these, toLowerCase maps A to Z to a to z and the capital letters U+00C0 to
  U+00DE, the multiplication sign U+00D7 apart, to the letters 32 places on (U+00C9 to
  U+00E9); it keeps every other one. A verb with a code unit above U+00FF is outside
  the type.
\<close>

definition upperCase :: "char list" where
  "upperCase =
     ''ABCDEFGHIJKLMNOPQRSTUVWXYZ'' @
     [CHR 0xC0, CHR 0xC1, CHR 0xC2, CHR 0xC3, CHR 0xC4, CHR 0xC5, CHR 0xC6, CHR 0xC7,
      CHR 0xC8, CHR 0xC9, CHR 0xCA, CHR 0xCB, CHR 0xCC, CHR 0xCD, CHR 0xCE, CHR 0xCF,
      CHR 0xD0, CHR 0xD1, CHR 0xD2, CHR 0xD3, CHR 0xD4, CHR 0xD5, CHR 0xD6,
      CHR 0xD8, CHR 0xD9, CHR 0xDA, CHR 0xDB, CHR 0xDC, CHR 0xDD, CHR 0xDE]"

definition lowerCase :: "char list" where
  "lowerCase =
     ''abcdefghijklmnopqrstuvwxyz'' @
     [CHR 0xE0, CHR 0xE1, CHR 0xE2, CHR 0xE3, CHR 0xE4, CHR 0xE5, CHR 0xE6, CHR 0xE7,
      CHR 0xE8, CHR 0xE9, CHR 0xEA, CHR 0xEB, CHR 0xEC, CHR 0xED, CHR 0xEE, CHR 0xEF,
      CHR 0xF0, CHR 0xF1, CHR 0xF2, CHR 0xF3, CHR 0xF4, CHR 0xF5, CHR 0xF6,
      CHR 0xF8, CHR 0xF9, CHR 0xFA, CHR 0xFB, CHR 0xFC, CHR 0xFD, CHR 0xFE]"

definition toLowerCase_char :: "char \<Rightarrow> char" where
  "toLowerCase_char c = (case map_of (zip upperCase lowerCase) c of None \<Rightarrow> c | Some d \<Rightarrow> d)"

definition toLowerCase :: "string nullable \<Rightarrow> error + string" where
  "toLowerCase v = andThen (member v) (\<lambda>s. Inr (map toLowerCase_char s))"

section \<open>The raw response\<close>

text \<open>
  What the code reads of an \<^verbatim>\<open>XMLHttpRequest\<close>: the header lookup behind
  \<^verbatim>\<open>getResponseHeader\<close> (a missing header reads as \<^verbatim>\<open>null\<close>), \<^verbatim>\<open>status\<close>,
  \<^verbatim>\<open>responseURL\<close> and \<^verbatim>\<open>response\<close>, the body, of a type the code never inspects.
\<close>

record 'b XMLHttpRequest =
  responseHeaders :: "string \<rightharpoonup> string"
  status :: int
  responseURL :: string
  response :: "'b nullable"

definition headerValue :: "'b XMLHttpRequest \<Rightarrow> string \<Rightarrow> string nullable" where
  "headerValue r name = (case responseHeaders r name of None \<Rightarrow> Null | Some s \<Rightarrow> Val s)"

definition getResponseHeader :: "'b XMLHttpRequest nullable \<Rightarrow> string \<Rightarrow> error + string nullable" where
  "getResponseHeader x name = andThen (member x) (\<lambda>r. Inr (headerValue r name))"

section \<open>The helper module \<^verbatim>\<open>../util/web-util\<close>\<close>

text \<open>
  Modelled from the spec: the module \<^verbatim>\<open>web-util\<close> required on line 7, whose source
  is missing. The constructor takes it as a parameter: two functions that, as the
  specification has it, never fail. \<^verbatim>\<open>parseLinkHeader\<close> may answer with a falsy
  value, which the constructor replaces by an empty object.
\<close>

record web_util =
  webUtil_parseLinkHeader :: "string nullable \<Rightarrow> (string \<rightharpoonup> string) nullable"
  webUtil_parseAllowedMethods :: "string nullable \<Rightarrow> string nullable \<Rightarrow> (string \<rightharpoonup> bool) nullable"

subsection \<open>The helpers as the specification describes them\<close>

text \<open>
  Modelled from the spec: \<^verbatim>\<open>webUtil.parseLinkHeader\<close>, whose source is missing. The
  header is split on top-level commas (a comma inside an angle-bracket URI or a quoted
  parameter separates nothing); of each entry the bracketed target and the value of its
  \<^verbatim>\<open>rel\<close> parameter, surrounding quotes stripped, are taken; the target is stored under
  the relation name, a later entry overwriting an earlier one; an entry without a
  target or without \<^verbatim>\<open>rel\<close> is skipped; a missing or empty header gives the empty map.
\<close>

fun splitTopLevel :: "bool \<Rightarrow> bool \<Rightarrow> string \<Rightarrow> string \<Rightarrow> string list" where
  "splitTopLevel inUri inQuote cur [] = [rev cur]"
| "splitTopLevel inUri inQuote cur (c # cs) =
     (if c = CHR '','' \<and> \<not> inUri \<and> \<not> inQuote then rev cur # splitTopLevel False False [] cs
      else if c = CHR 0x22 \<and> \<not> inUri then splitTopLevel inUri (\<not> inQuote) (c # cur) cs
      else if c = CHR ''<'' \<and> \<not> inQuote then splitTopLevel True inQuote (c # cur) cs
      else if c = CHR ''>'' \<and> \<not> inQuote then splitTopLevel False inQuote (c # cur) cs
      else splitTopLevel inUri inQuote (c # cur) cs)"

fun splitOn :: "(char \<Rightarrow> bool) \<Rightarrow> string \<Rightarrow> string \<Rightarrow> string list" where
  "splitOn sep cur [] = [rev cur]"
| "splitOn sep cur (c # cs) =
     (if sep c then rev cur # splitOn sep [] cs else splitOn sep (c # cur) cs)"

definition trim :: "string \<Rightarrow> string" where
  "trim s = rev (dropWhile (\<lambda>c. c = CHR '' '') (rev (dropWhile (\<lambda>c. c = CHR '' '') s)))"

definition linkTarget :: "string \<Rightarrow> string option" where
  "linkTarget entry =
     (case dropWhile (\<lambda>c. c \<noteq> CHR ''<'') entry of
        [] \<Rightarrow> None
      | _ # rest \<Rightarrow>
          if CHR ''>'' \<in> set rest then Some (takeWhile (\<lambda>c. c \<noteq> CHR ''>'') rest) else None)"

definition stripQuotes :: "string \<Rightarrow> string" where
  "stripQuotes s =
     (case s of
        [] \<Rightarrow> []
      | c # rest \<Rightarrow>
          if c = CHR 0x22 \<and> rest \<noteq> [] \<and> last rest = CHR 0x22 then butlast rest else s)"

definition relOf :: "string \<Rightarrow> string option" where
  "relOf param =
     (let p = trim param
      in if take 4 p = ''rel='' then Some (stripQuotes (drop 4 p)) else None)"

definition linkRel :: "string \<Rightarrow> string option" where
  "linkRel entry =
     (case List.map_filter relOf
             (splitOn (\<lambda>c. c = CHR '';'') []
                (drop 1 (dropWhile (\<lambda>c. c \<noteq> CHR ''>'') entry))) of
        [] \<Rightarrow> None
      | rel # _ \<Rightarrow> Some rel)"

definition addLink :: "(string \<rightharpoonup> string) \<Rightarrow> string \<Rightarrow> (string \<rightharpoonup> string)" where
  "addLink rels entry =
     (case (linkTarget entry, linkRel entry) of
        (Some target, Some rel) \<Rightarrow> rels(rel \<mapsto> target)
      | _ \<Rightarrow> rels)"

definition spec_parseLinkHeader :: "string nullable \<Rightarrow> (string \<rightharpoonup> string) nullable" where
  "spec_parseLinkHeader link =
     (case link of
        Val s \<Rightarrow> Val (foldl addLink Map.empty (splitTopLevel False False [] s))
      | _ \<Rightarrow> Val Map.empty)"

text \<open>
  Modelled from the spec: \<^verbatim>\<open>webUtil.parseAllowedMethods\<close>, whose source is missing.
  \<^verbatim>\<open>Allow\<close> is split on commas and spaces, each token is lower-cased and set to true;
  a non-empty \<^verbatim>\<open>Accept-Patch\<close> sets \<^verbatim>\<open>patch\<close> as well; two missing or empty headers
  give the empty map.
\<close>

definition allowTokens :: "string nullable \<Rightarrow> string list" where
  "allowTokens allow =
     (case allow of
        Val s \<Rightarrow> filter (\<lambda>t. t \<noteq> []) (splitOn (\<lambda>c. c = CHR '','' \<or> c = CHR '' '') [] s)
      | _ \<Rightarrow> [])"

definition spec_parseAllowedMethods ::
  "string nullable \<Rightarrow> string nullable \<Rightarrow> (string \<rightharpoonup> bool) nullable" where
  "spec_parseAllowedMethods allow acceptPatch =
     (let verbs = foldl (\<lambda>m t. m(map toLowerCase_char t \<mapsto> True)) Map.empty (allowTokens allow)
      in Val (if truthy_string acceptPatch then verbs(''patch'' \<mapsto> True) else verbs))"

definition spec_webUtil :: web_util where
  "spec_webUtil =
     \<lparr>webUtil_parseLinkHeader = spec_parseLinkHeader,
      webUtil_parseAllowedMethods = spec_parseAllowedMethods\<rparr>"

section \<open>The response view\<close>

text \<open>
  The fields of a view. What \<^verbatim>\<open>xhr\<close> holds is a parameter: the raw response as it
  was read, or, further down, a reference to the live object.
\<close>

record 'x solid_response =
  linkHeaders :: "(string \<rightharpoonup> string) nullable"
  "method" :: "string nullable"
  acl :: "string nullable"
  allowedMethods :: "(string \<rightharpoonup> bool) nullable"
  meta :: "string nullable"
  type :: "string nullable"
  url :: "string nullable"
  user :: "string nullable"
  websocket :: "string nullable"
  xhr :: "'x nullable"

text \<open>The object \<^verbatim>\<open>new\<close> hands to the constructor: no property assigned yet.\<close>

definition new_object :: "'x solid_response" where
  "new_object =
     \<lparr>linkHeaders = Undefined, method = Undefined, acl = Undefined,
      allowedMethods = Undefined, meta = Undefined, type = Undefined, url = Undefined,
      user = Undefined, websocket = Undefined, xhr = Undefined\<rparr>"

text \<open>\<^verbatim>\<open>SolidResponse.prototype.parseAllowedMethods\<close>, lines 152 to 163.\<close>

definition parseAllowedMethods ::
  "web_util \<Rightarrow> 'b XMLHttpRequest nullable \<Rightarrow> string \<Rightarrow> error + (string \<rightharpoonup> bool) nullable" where
  "parseAllowedMethods webUtil xhrResponse verb =
     (if verb = ''get'' then Inr (Val Map.empty)
      else
        andThen (getResponseHeader xhrResponse ''Allow'') (\<lambda>allow.
        andThen (getResponseHeader xhrResponse ''Accept-Patch'') (\<lambda>acceptPatch.
        Inr (webUtil_parseAllowedMethods webUtil allow acceptPatch))))"

text \<open>
  The constructor, lines 17 to 109, assignment by assignment. Its parameter
  \<^verbatim>\<open>method\<close> is \<open>verb\<close> here, the field keeping the name. \<^verbatim>\<open>a || b\<close> evaluates
  \<^verbatim>\<open>b\<close> only when \<^verbatim>\<open>a\<close> is falsy.
\<close>

definition SolidResponse ::
  "web_util \<Rightarrow> 'b XMLHttpRequest nullable \<Rightarrow> string nullable \<Rightarrow>
     error + 'b XMLHttpRequest solid_response" where
  "SolidResponse webUtil xhrResponse verb =
     (if \<not> truthy_object xhrResponse
      then Inr (new_object\<lparr>xhr := Null, user := Val [], method := Null\<rparr>)
      else
        andThen (getResponseHeader xhrResponse ''Link'') (\<lambda>linkHeader.
        let parsed = webUtil_parseLinkHeader webUtil linkHeader;
            this = new_object\<lparr>linkHeaders :=
                     (if truthy_object parsed then parsed else Val Map.empty)\<rparr>
        in
        andThen (if truthy_string verb then toLowerCase verb else Inr []) (\<lambda>verb.
        let this = this\<lparr>method := Val verb\<rparr> in
        andThen (getProperty (linkHeaders this) ''acl'') (\<lambda>v.
        let this = this\<lparr>acl := v\<rparr> in
        andThen (parseAllowedMethods webUtil xhrResponse verb) (\<lambda>v.
        let this = this\<lparr>allowedMethods := v\<rparr> in
        andThen (getProperty (linkHeaders this) ''meta'') (\<lambda>m.
        andThen (if truthy_string m then Inr m
                 else getProperty (linkHeaders this) ''describedBy'') (\<lambda>v.
        let this = this\<lparr>meta := v\<rparr> in
        andThen (getProperty (linkHeaders this) ''type'') (\<lambda>v.
        let this = this\<lparr>type := v\<rparr> in
        andThen (getResponseHeader xhrResponse ''Location'') (\<lambda>location.
        andThen (if truthy_string location then Inr location
                 else andThen (member xhrResponse) (\<lambda>r. Inr (Val (responseURL r)))) (\<lambda>v.
        let this = this\<lparr>url := v\<rparr> in
        andThen (getResponseHeader xhrResponse ''User'') (\<lambda>u.
        let this = this\<lparr>user := (if truthy_string u then u else Val [])\<rparr> in
        andThen (getResponseHeader xhrResponse ''Updates-Via'') (\<lambda>u.
        let this = this\<lparr>websocket := (if truthy_string u then u else Val [])\<rparr> in
        Inr (this\<lparr>xhr := xhrResponse\<rparr>)))))))))))))"

section \<open>Query methods\<close>

text \<open>
  Each method is a function of \<^verbatim>\<open>this\<close> that gives back its result together with
  \<^verbatim>\<open>this\<close> as the call leaves it.
\<close>

definition contentType ::
  "'b XMLHttpRequest solid_response \<Rightarrow>
     (error + string nullable) \<times> 'b XMLHttpRequest solid_response" where
  "contentType this =
     (if truthy_object (xhr this) then getResponseHeader (xhr this) ''Content-Type''
      else Inr Null, this)"

text \<open>
  \<^verbatim>\<open>a && b\<close> is \<^verbatim>\<open>a\<close> itself when \<^verbatim>\<open>a\<close> is falsy, so \<^verbatim>\<open>exists\<close> answers with the
  falsy \<^verbatim>\<open>this.xhr\<close> when there is no response, and with a Boolean otherwise.
\<close>

definition exists ::
  "'b XMLHttpRequest solid_response \<Rightarrow>
     (error + bool nullable) \<times> 'b XMLHttpRequest solid_response" where
  "exists this =
     (case xhr this of
        Undefined \<Rightarrow> Inr Undefined
      | Null \<Rightarrow> Inr Null
      | Val r \<Rightarrow> Inr (Val (status r \<ge> 200 \<and> status r < 400)), this)"

definition isLoggedIn :: "'x solid_response \<Rightarrow> (error + string nullable) \<times> 'x solid_response" where
  "isLoggedIn this = (Inr (user this), this)"

definition raw ::
  "'b XMLHttpRequest solid_response \<Rightarrow> (error + 'b nullable) \<times> 'b XMLHttpRequest solid_response" where
  "raw this =
     (if truthy_object (xhr this) then andThen (member (xhr this)) (\<lambda>r. Inr (response r))
      else Inr Null, this)"

text \<open>Truthiness of a Boolean result, for the callers that branch on \<^verbatim>\<open>exists()\<close>.\<close>

definition truthy_boolean :: "bool nullable \<Rightarrow> bool" where
  "truthy_boolean v = (case v of Val b \<Rightarrow> b | _ \<Rightarrow> False)"

section \<open>The view over the live raw response\<close>

text \<open>
  Line 108 keeps the raw response object itself, not a copy of it, and lines 119, 131
  and 172 read that object again at every call. Here the \<^verbatim>\<open>XMLHttpRequest\<close> objects
  live in a store, the view holds a reference into it, and a call takes the store and
  the view and hands both back with its result. Whoever else holds the object, the
  transport to begin with, changes it by changing the store.
\<close>

type_synonym reference = nat

type_synonym 'b store = "reference \<Rightarrow> 'b XMLHttpRequest"

text \<open>The object a reference stands for at the moment.\<close>

definition load :: "'b store \<Rightarrow> reference nullable \<Rightarrow> 'b XMLHttpRequest nullable" where
  "load s x = (case x of Undefined \<Rightarrow> Undefined | Null \<Rightarrow> Null | Val a \<Rightarrow> Val (s a))"

text \<open>
  The constructor writes to nothing but \<^verbatim>\<open>this\<close>, so all its reads see the object as
  the store has it at that moment; what line 108 keeps is the reference.
\<close>

definition SolidResponse_in ::
  "web_util \<Rightarrow> 'b store \<Rightarrow> reference nullable \<Rightarrow> string nullable \<Rightarrow>
     error + reference solid_response" where
  "SolidResponse_in webUtil s xhrResponse verb =
     andThen (SolidResponse webUtil (load s xhrResponse) verb) (\<lambda>this.
     Inr \<lparr>linkHeaders = linkHeaders this, method = method this, acl = acl this,
          allowedMethods = allowedMethods this, meta = meta this, type = type this,
          url = url this, user = user this, websocket = websocket this,
          xhr = (if truthy_object xhrResponse then xhrResponse else Null)\<rparr>)"

text \<open>The four query methods, lines 117 to 176, reading \<^verbatim>\<open>this.xhr\<close> in the store.\<close>

definition contentType_in ::
  "'b store \<Rightarrow> reference solid_response \<Rightarrow>
     (error + string nullable) \<times> 'b store \<times> reference solid_response" where
  "contentType_in s this =
     (if truthy_object (xhr this) then getResponseHeader (load s (xhr this)) ''Content-Type''
      else Inr Null, s, this)"

definition exists_in ::
  "'b store \<Rightarrow> reference solid_response \<Rightarrow>
     (error + bool nullable) \<times> 'b store \<times> reference solid_response" where
  "exists_in s this =
     (case load s (xhr this) of
        Undefined \<Rightarrow> Inr Undefined
      | Null \<Rightarrow> Inr Null
      | Val r \<Rightarrow> Inr (Val (status r \<ge> 200 \<and> status r < 400)), s, this)"

definition isLoggedIn_in ::
  "'b store \<Rightarrow> reference solid_response \<Rightarrow>
     (error + string nullable) \<times> 'b store \<times> reference solid_response" where
  "isLoggedIn_in s this = (Inr (user this), s, this)"

definition raw_in ::
  "'b store \<Rightarrow> reference solid_response \<Rightarrow>
     (error + 'b nullable) \<times> 'b store \<times> reference solid_response" where
  "raw_in s this =
     (if truthy_object (xhr this)
      then andThen (member (load s (xhr this))) (\<lambda>r. Inr (response r))
      else Inr Null, s, this)"

text \<open>The view as a call finds it: its own fields, and the raw response as it is now.\<close>

definition snapshot :: "'b store \<Rightarrow> reference solid_response \<Rightarrow> 'b XMLHttpRequest solid_response" where
  "snapshot s this =
     \<lparr>linkHeaders = linkHeaders this, method = method this, acl = acl this,
      allowedMethods = allowedMethods this, meta = meta this, type = type this,
      url = url this, user = user this, websocket = websocket this,
      xhr = load s (xhr this)\<rparr>"

section \<open>Properties\<close>

lemma andThen_Inr [simp]: "andThen (Inr v) f = f v"
  by (simp add: andThen_def)

lemma andThen_Inl [simp]: "andThen (Inl e) f = Inl e"
  by (simp add: andThen_def)

lemma member_Val [simp]: "member (Val x) = Inr x"
  by (simp add: member_def)

lemma truthy_object_simps [simp]:
  "truthy_object (Val x)" "\<not> truthy_object Null" "\<not> truthy_object Undefined"
  by (simp_all add: truthy_object_def)

lemma truthy_string_simps [simp]:
  "truthy_string (Val s) = (s \<noteq> [])" "\<not> truthy_string Null" "\<not> truthy_string Undefined"
  by (simp_all add: truthy_string_def)

lemma getResponseHeader_Val [simp]:
  "getResponseHeader (Val r) name = Inr (headerValue r name)"
  by (simp add: getResponseHeader_def)

lemma getResponseHeader_falsy:
  "\<not> truthy_object x \<Longrightarrow> getResponseHeader x name = Inl TypeError"
  by (cases x) (simp_all add: getResponseHeader_def member_def)

lemma getProperty_Val [simp]: "getProperty (Val m) k = Inr (propertyValue m k)"
  by (simp add: getProperty_def)

text \<open>The two paths of the constructor in closed form.\<close>

lemma SolidResponse_falsy:
  "\<not> truthy_object x \<Longrightarrow>
     SolidResponse w x verb = Inr (new_object\<lparr>xhr := Null, user := Val [], method := Null\<rparr>)"
  by (simp add: SolidResponse_def)

lemma SolidResponse_Val:
  fixes w :: web_util and r :: "'b XMLHttpRequest" and verb :: "string nullable"
  defines "links \<equiv> (case webUtil_parseLinkHeader w (headerValue r ''Link'') of
                       Val m \<Rightarrow> m | _ \<Rightarrow> Map.empty)"
  defines "lverb \<equiv> (case verb of Val s \<Rightarrow> map toLowerCase_char s | _ \<Rightarrow> [])"
  shows "SolidResponse w (Val r) verb =
     Inr \<lparr>linkHeaders = Val links,
          method = Val lverb,
          acl = propertyValue links ''acl'',
          allowedMethods =
            (if lverb = ''get'' then Val Map.empty
             else webUtil_parseAllowedMethods w (headerValue r ''Allow'')
                    (headerValue r ''Accept-Patch'')),
          meta =
            (if truthy_string (propertyValue links ''meta'') then propertyValue links ''meta''
             else propertyValue links ''describedBy''),
          type = propertyValue links ''type'',
          url =
            (if truthy_string (headerValue r ''Location'') then headerValue r ''Location''
             else Val (responseURL r)),
          user = (if truthy_string (headerValue r ''User'') then headerValue r ''User'' else Val []),
          websocket =
            (if truthy_string (headerValue r ''Updates-Via'') then headerValue r ''Updates-Via''
             else Val []),
          xhr = Val r\<rparr>"
proof (cases "webUtil_parseLinkHeader w (headerValue r ''Link'')")
  case Undefined
  then show ?thesis
    by (cases verb)
      (simp_all add: SolidResponse_def new_object_def parseAllowedMethods_def toLowerCase_def
        links_def lverb_def)
next
  case Null
  then show ?thesis
    by (cases verb)
      (simp_all add: SolidResponse_def new_object_def parseAllowedMethods_def toLowerCase_def
        links_def lverb_def)
next
  case (Val m)
  then show ?thesis
    by (cases verb)
      (simp_all add: SolidResponse_def new_object_def parseAllowedMethods_def toLowerCase_def
        links_def lverb_def)
qed

text \<open>Which verbs lower-case to \<^verbatim>\<open>get\<close>.\<close>

lemma toLowerCase_char_g: "toLowerCase_char c = CHR ''g'' \<longleftrightarrow> c = CHR ''g'' \<or> c = CHR ''G''"
  by (auto simp: toLowerCase_char_def upperCase_def lowerCase_def split: if_splits)

lemma toLowerCase_char_e: "toLowerCase_char c = CHR ''e'' \<longleftrightarrow> c = CHR ''e'' \<or> c = CHR ''E''"
  by (auto simp: toLowerCase_char_def upperCase_def lowerCase_def split: if_splits)

lemma toLowerCase_char_t: "toLowerCase_char c = CHR ''t'' \<longleftrightarrow> c = CHR ''t'' \<or> c = CHR ''T''"
  by (auto simp: toLowerCase_char_def upperCase_def lowerCase_def split: if_splits)

lemma toLowerCase_get:
  "map toLowerCase_char s = ''get'' \<longleftrightarrow>
     s \<in> {''get'', ''geT'', ''gEt'', ''gET'', ''Get'', ''GeT'', ''GEt'', ''GET''}"
proof -
  have "map toLowerCase_char s = ''get'' \<longleftrightarrow>
      (\<exists>a b c. s = [a, b, c] \<and> toLowerCase_char a = CHR ''g'' \<and>
         toLowerCase_char b = CHR ''e'' \<and> toLowerCase_char c = CHR ''t'')"
    by (auto simp: map_eq_Cons_conv)
  also have "\<dots> \<longleftrightarrow> s \<in> {''get'', ''geT'', ''gEt'', ''gET'', ''Get'', ''GeT'', ''GEt'', ''GET''}"
    unfolding toLowerCase_char_g toLowerCase_char_e toLowerCase_char_t by auto
  finally show ?thesis .
qed

text \<open>The fields of a constructed view, read off the closed forms.\<close>

lemma SolidResponse_Val_fields:
  assumes "SolidResponse w (Val r) verb = Inr v"
  shows "xhr v = Val r"
    and "method v = Val (case verb of Val s \<Rightarrow> map toLowerCase_char s | _ \<Rightarrow> [])"
    and "linkHeaders v =
           Val (case webUtil_parseLinkHeader w (headerValue r ''Link'') of
                  Val m \<Rightarrow> m | _ \<Rightarrow> Map.empty)"
    and "user v = (if truthy_string (headerValue r ''User'') then headerValue r ''User'' else Val [])"
    and "websocket v =
           (if truthy_string (headerValue r ''Updates-Via'') then headerValue r ''Updates-Via''
            else Val [])"
  using assms unfolding SolidResponse_Val by auto

lemma SolidResponse_falsy_fields:
  assumes "\<not> truthy_object x" and "SolidResponse w x verb = Inr v"
  shows "xhr v = Null" and "user v = Val []" and "method v = Null"
    and "linkHeaders v = Undefined"
  using assms by (auto simp: SolidResponse_falsy new_object_def)

lemma falsy_cases: "\<not> truthy_object x \<longleftrightarrow> x = Undefined \<or> x = Null"
  by (cases x) simp_all

lemma SolidResponse_Val_meta:
  assumes "SolidResponse w (Val r) verb = Inr v"
  shows "\<exists>links. linkHeaders v = Val links \<and>
    meta v = (if truthy_string (propertyValue links ''meta'') then propertyValue links ''meta''
              else propertyValue links ''describedBy'')"
  using assms unfolding SolidResponse_Val by auto

text \<open>The helpers of the specification on the inputs the claims name.\<close>

lemma spec_parseLinkHeader_describedBy:
  "spec_parseLinkHeader (Val ''<a>; rel=\"describedBy\"'') = Val [''describedBy'' \<mapsto> ''a'']"
  by (simp add: spec_parseLinkHeader_def addLink_def linkTarget_def linkRel_def relOf_def
      stripQuotes_def trim_def List.map_filter_simps)

lemma splitTopLevel_chars:
  "e \<in> set (splitTopLevel inUri inQuote cur cs) \<Longrightarrow> set e \<subseteq> set cur \<union> set cs"
  by (induction inUri inQuote cur cs rule: splitTopLevel.induct) (auto split: if_splits)

lemma linkTarget_no_bracket:
  assumes "CHR ''<'' \<notin> set e"
  shows "linkTarget e = None"
proof -
  have d: "dropWhile (\<lambda>c. c \<noteq> CHR ''<'') e = []"
    using assms by (auto simp: dropWhile_eq_Nil_conv)
  show ?thesis
    unfolding linkTarget_def d by simp
qed

lemma foldl_addLink_skip:
  "\<forall>e \<in> set es. linkTarget e = None \<Longrightarrow> foldl addLink rels es = rels"
  by (induction es arbitrary: rels) (simp_all add: addLink_def)

lemma spec_parseLinkHeader_absent:
  "spec_parseLinkHeader Null = Val Map.empty" "spec_parseLinkHeader Undefined = Val Map.empty"
  by (simp_all add: spec_parseLinkHeader_def)

lemma spec_parseLinkHeader_unparseable:
  assumes "CHR ''<'' \<notin> set s"
  shows "spec_parseLinkHeader (Val s) = Val Map.empty"
proof -
  have "\<forall>e \<in> set (splitTopLevel False False [] s). linkTarget e = None"
    using assms splitTopLevel_chars [of _ False False "[]" s]
    by (auto intro!: linkTarget_no_bracket)
  then show ?thesis
    by (simp add: spec_parseLinkHeader_def foldl_addLink_skip)
qed

section \<open>The claims\<close>

text \<open>
  C1. Construction is total: for every raw response (falsy, or a response with any
  headers, also none) and every request verb the constructor returns a view and throws
  nothing. For a falsy raw response the view has \<^verbatim>\<open>xhr = null\<close>, \<^verbatim>\<open>user = ''\<close> and
  \<^verbatim>\<open>method = null\<close>; no header was read on the way, since every header access on a
  falsy raw response throws, and neither the helper module nor the verb has any
  influence on the result.
\<close>

theorem SolidResponse_total:
  fixes w :: web_util and xhrResponse :: "'b XMLHttpRequest nullable"
    and verb :: "string nullable"
  shows "(\<exists>v. SolidResponse w xhrResponse verb = Inr v) \<and>
    (\<not> truthy_object xhrResponse \<longrightarrow>
       (\<exists>v. SolidResponse w xhrResponse verb = Inr v \<and>
            xhr v = Null \<and> user v = Val [] \<and> method v = Null) \<and>
       (\<forall>name. getResponseHeader xhrResponse name = Inl TypeError) \<and>
       (\<forall>w' verb'. SolidResponse w' xhrResponse verb' = SolidResponse w xhrResponse verb))"
proof (cases xhrResponse)
  case (Val r)
  then show ?thesis
    by (simp add: SolidResponse_Val)
next
  case Undefined
  then show ?thesis
    by (simp add: SolidResponse_falsy getResponseHeader_falsy new_object_def)
next
  case Null
  then show ?thesis
    by (simp add: SolidResponse_falsy getResponseHeader_falsy new_object_def)
qed

text \<open>C1 at the null response with verb GET, and at a response without any header.\<close>

theorem SolidResponse_total_witness:
  "\<not> truthy_object (Null :: string XMLHttpRequest nullable) \<and>
   (\<exists>v. SolidResponse spec_webUtil (Null :: string XMLHttpRequest nullable) (Val ''GET'') = Inr v \<and>
        xhr v = Null \<and> user v = Val [] \<and> method v = Null) \<and>
   (\<exists>v. SolidResponse spec_webUtil
          (Val \<lparr>responseHeaders = Map.empty, status = 200, responseURL = ''/'',
                response = (Null :: string nullable)\<rparr>) Undefined = Inr v)"
  using SolidResponse_total [of spec_webUtil "Null :: string XMLHttpRequest nullable" "Val ''GET''"]
    SolidResponse_total [of spec_webUtil
      "Val \<lparr>responseHeaders = Map.empty, status = 200, responseURL = ''/'',
            response = (Null :: string nullable)\<rparr>" Undefined]
  by simp

text \<open>
  C2. A view built from a response records the lower-cased verb as \<^verbatim>\<open>method\<close>; the
  verb normalizes to \<^verbatim>\<open>get\<close> exactly for the eight spellings of it. Then
  \<^verbatim>\<open>allowedMethods\<close> is the empty map, whatever the \<^verbatim>\<open>Allow\<close> and
  \<^verbatim>\<open>Accept-Patch\<close> headers hold; for every other verb it is what
  \<^verbatim>\<open>webUtil.parseAllowedMethods\<close> makes of these two headers.
\<close>

theorem allowedMethods_get:
  assumes "SolidResponse w (Val r) verb = Inr v"
  shows "method v = Val (case verb of Val s \<Rightarrow> map toLowerCase_char s | _ \<Rightarrow> []) \<and>
    (method v = Val ''get'' \<longleftrightarrow>
       (\<exists>s \<in> {''get'', ''geT'', ''gEt'', ''gET'', ''Get'', ''GeT'', ''GEt'', ''GET''}.
          verb = Val s)) \<and>
    allowedMethods v =
      (if method v = Val ''get'' then Val Map.empty
       else webUtil_parseAllowedMethods w (headerValue r ''Allow'')
              (headerValue r ''Accept-Patch''))"
proof -
  have "(case verb of Val s \<Rightarrow> map toLowerCase_char s | _ \<Rightarrow> []) = ''get'' \<longleftrightarrow>
      (\<exists>s \<in> {''get'', ''geT'', ''gEt'', ''gET'', ''Get'', ''GeT'', ''GEt'', ''GET''}.
          verb = Val s)"
    by (cases verb) (simp_all only: nullable.case toLowerCase_get, auto)
  with assms show ?thesis
    unfolding SolidResponse_Val by auto
qed

text \<open>
  C2 at verb \<^verbatim>\<open>GeT\<close> with both headers present, and at verb \<^verbatim>\<open>OPTIONS\<close> with
  \<^verbatim>\<open>Allow: GET, PUT\<close> under the helpers of the specification.
\<close>

theorem allowedMethods_get_witness:
  "(\<exists>v. SolidResponse spec_webUtil
          (Val \<lparr>responseHeaders = [''Allow'' \<mapsto> ''GET, PUT'', ''Accept-Patch'' \<mapsto> ''application/sparql-update''],
                status = 200, responseURL = ''/'', response = (Null :: string nullable)\<rparr>)
          (Val ''GeT'') = Inr v \<and>
        method v = Val ''get'' \<and> allowedMethods v = Val Map.empty) \<and>
   (\<exists>v. SolidResponse spec_webUtil
          (Val \<lparr>responseHeaders = [''Allow'' \<mapsto> ''GET, PUT''],
                status = 200, responseURL = ''/'', response = (Null :: string nullable)\<rparr>)
          (Val ''OPTIONS'') = Inr v \<and>
        method v = Val ''options'' \<and>
        allowedMethods v = Val [''get'' \<mapsto> True, ''put'' \<mapsto> True])"
proof -
  let ?r1 = "\<lparr>responseHeaders = [''Allow'' \<mapsto> ''GET, PUT'', ''Accept-Patch'' \<mapsto> ''application/sparql-update''],
                status = 200, responseURL = ''/'', response = (Null :: string nullable)\<rparr>"
  let ?r2 = "\<lparr>responseHeaders = [''Allow'' \<mapsto> ''GET, PUT''],
                status = 200, responseURL = ''/'', response = (Null :: string nullable)\<rparr>"
  obtain v1 where v1: "SolidResponse spec_webUtil (Val ?r1) (Val ''GeT'') = Inr v1"
    by (simp add: SolidResponse_Val)
  obtain v2 where v2: "SolidResponse spec_webUtil (Val ?r2) (Val ''OPTIONS'') = Inr v2"
    by (simp add: SolidResponse_Val)
  have m1: "method v1 = Val ''get''"
    using allowedMethods_get [OF v1] by (simp add: toLowerCase_char_def upperCase_def lowerCase_def)
  have a1: "allowedMethods v1 = Val Map.empty"
    using allowedMethods_get [OF v1] m1 by simp
  have m2: "method v2 = Val ''options''"
    using allowedMethods_get [OF v2] by (simp add: toLowerCase_char_def upperCase_def lowerCase_def)
  have "allowedMethods v2 =
      spec_parseAllowedMethods (headerValue ?r2 ''Allow'') (headerValue ?r2 ''Accept-Patch'')"
    using allowedMethods_get [OF v2] m2 by (simp add: spec_webUtil_def)
  also have "\<dots> = Val [''get'' \<mapsto> True, ''put'' \<mapsto> True]"
    by (simp add: headerValue_def spec_parseAllowedMethods_def allowTokens_def
        toLowerCase_char_def upperCase_def lowerCase_def)
  finally have a2: "allowedMethods v2 = Val [''get'' \<mapsto> True, ''put'' \<mapsto> True]" .
  from v1 m1 a1 v2 m2 a2 show ?thesis by blast
qed

text \<open>
  What \<^verbatim>\<open>exists()\<close> answers on every constructed view. It throws nothing, and its
  result is truthy if and only if a raw response is present and its status lies in
  [200, 400). With a response present the result is the Boolean of that comparison, so
  true for 200, 204 and 301 and false for 404 and 500; with no raw response it is
  falsy.
\<close>

theorem exists_iff:
  assumes "SolidResponse w xhrResponse verb = Inr v"
  shows "\<exists>b. fst (exists v) = Inr b \<and>
    (truthy_boolean b \<longleftrightarrow>
       (\<exists>r. xhrResponse = Val r \<and> 200 \<le> status r \<and> status r < 400)) \<and>
    (\<forall>r. xhrResponse = Val r \<longrightarrow> b = Val (200 \<le> status r \<and> status r < 400))"
proof (cases "truthy_object xhrResponse")
  case True
  then obtain r where r: "xhrResponse = Val r"
    by (cases xhrResponse) simp_all
  with assms have "xhr v = Val r"
    by (simp add: SolidResponse_Val_fields)
  with r show ?thesis
    by (auto simp: exists_def truthy_boolean_def)
next
  case False
  from SolidResponse_falsy_fields(1) [OF False assms] False show ?thesis
    by (auto simp: exists_def truthy_boolean_def)
qed

text \<open>The same at the statuses 200, 204, 301, 404 and 500, and at the null response.\<close>

theorem exists_iff_witness:
  "(\<exists>v. SolidResponse spec_webUtil
          (Val \<lparr>responseHeaders = Map.empty, status = 200, responseURL = ''/'',
                response = (Null :: string nullable)\<rparr>) (Val ''GET'') = Inr v \<and>
        fst (exists v) = Inr (Val True)) \<and>
   (\<exists>v. SolidResponse spec_webUtil
          (Val \<lparr>responseHeaders = Map.empty, status = 204, responseURL = ''/'',
                response = (Null :: string nullable)\<rparr>) (Val ''GET'') = Inr v \<and>
        fst (exists v) = Inr (Val True)) \<and>
   (\<exists>v. SolidResponse spec_webUtil
          (Val \<lparr>responseHeaders = Map.empty, status = 301, responseURL = ''/'',
                response = (Null :: string nullable)\<rparr>) (Val ''GET'') = Inr v \<and>
        fst (exists v) = Inr (Val True)) \<and>
   (\<exists>v. SolidResponse spec_webUtil
          (Val \<lparr>responseHeaders = Map.empty, status = 404, responseURL = ''/'',
                response = (Null :: string nullable)\<rparr>) (Val ''GET'') = Inr v \<and>
        fst (exists v) = Inr (Val False)) \<and>
   (\<exists>v. SolidResponse spec_webUtil
          (Val \<lparr>responseHeaders = Map.empty, status = 500, responseURL = ''/'',
                response = (Null :: string nullable)\<rparr>) (Val ''GET'') = Inr v \<and>
        fst (exists v) = Inr (Val False)) \<and>
   (\<exists>v b. SolidResponse spec_webUtil (Null :: string XMLHttpRequest nullable) (Val ''GET'') = Inr v \<and>
        fst (exists v) = Inr b \<and> \<not> truthy_boolean b)"
proof -
  have present: "\<exists>v. SolidResponse spec_webUtil
          (Val \<lparr>responseHeaders = Map.empty, status = s, responseURL = ''/'',
                response = (Null :: string nullable)\<rparr>) (Val ''GET'') = Inr v \<and>
        fst (exists v) = Inr (Val (200 \<le> s \<and> s < 400))" for s :: int
  proof -
    let ?r = "\<lparr>responseHeaders = Map.empty, status = s, responseURL = ''/'',
                response = (Null :: string nullable)\<rparr>"
    obtain v where v: "SolidResponse spec_webUtil (Val ?r) (Val ''GET'') = Inr v"
      by (simp add: SolidResponse_Val)
    from exists_iff [OF v] have "fst (exists v) = Inr (Val (200 \<le> s \<and> s < 400))"
      by auto
    with v show ?thesis by blast
  qed
  have absent: "\<exists>v b. SolidResponse spec_webUtil (Null :: string XMLHttpRequest nullable) (Val ''GET'') = Inr v \<and>
        fst (exists v) = Inr b \<and> \<not> truthy_boolean b"
  proof -
    obtain v where v: "SolidResponse spec_webUtil (Null :: string XMLHttpRequest nullable) (Val ''GET'') = Inr v"
      by (simp add: SolidResponse_falsy)
    from exists_iff [OF v] show ?thesis
      using v by auto
  qed
  from present [of 200] present [of 204] present [of 301] present [of 404] present [of 500] absent
  show ?thesis by simp
qed

text \<open>
  C3. \<^verbatim>\<open>exists()\<close> is to return a Boolean, as its own comment says
  (\<^verbatim>\<open>@return {Boolean}\<close>): true if and only if a raw response is present and its
  status lies in [200, 400), hence false for a view constructed with no raw response.
  For the views built from a response it does. For the view of
  \<^verbatim>\<open>new SolidResponse(null, 'GET')\<close> it does not: line 19 sets \<^verbatim>\<open>xhr\<close> to null, the
  conjunction of line 131 stops on it, and the call returns that null, which is not the
  Boolean false.
\<close>

theorem exists_no_response_not_false:
  "map_sum id (\<lambda>v. fst (exists v))
     (SolidResponse spec_webUtil (Null :: string XMLHttpRequest nullable) (Val ''GET'')) =
   Inr (Inr Null) \<and>
   map_sum id (\<lambda>v. fst (exists v))
     (SolidResponse spec_webUtil (Null :: string XMLHttpRequest nullable) (Val ''GET'')) \<noteq>
   Inr (Inr (Val False))"
  by (simp add: SolidResponse_falsy new_object_def exists_def)

text \<open>
  C4. For every view built from a truthy raw response, \<^verbatim>\<open>meta\<close> is
  \<^verbatim>\<open>linkHeaders['meta']\<close> when that entry is truthy, and \<^verbatim>\<open>linkHeaders['describedBy']\<close>
  otherwise; link headers that hold only \<^verbatim>\<open>describedBy\<close> with target \<open>a\<close> give
  \<^verbatim>\<open>meta = a\<close>.
\<close>

theorem meta_describedBy_fallback:
  assumes "SolidResponse w (Val r) verb = Inr v"
  shows "\<exists>links. linkHeaders v = Val links \<and>
    (truthy_string (propertyValue links ''meta'') \<longrightarrow> meta v = propertyValue links ''meta'') \<and>
    (\<not> truthy_string (propertyValue links ''meta'') \<longrightarrow>
       meta v = propertyValue links ''describedBy'') \<and>
    (\<forall>a. links = [''describedBy'' \<mapsto> a] \<longrightarrow> meta v = Val a)"
proof -
  from SolidResponse_Val_meta [OF assms] obtain links where
    l: "linkHeaders v = Val links" and
    m: "meta v = (if truthy_string (propertyValue links ''meta'') then propertyValue links ''meta''
              else propertyValue links ''describedBy'')"
    by blast
  have "meta v = Val a" if "links = [''describedBy'' \<mapsto> a]" for a
    using m that by (simp add: propertyValue_def)
  with l m show ?thesis by auto
qed

text \<open>
  C4 at the header \<^verbatim>\<open><a>; rel="describedBy"\<close>, parsed as the specification
  describes.
\<close>

theorem meta_describedBy_fallback_witness:
  "\<exists>v. SolidResponse spec_webUtil
         (Val \<lparr>responseHeaders = [''Link'' \<mapsto> ''<a>; rel=\"describedBy\"''], status = 200,
               responseURL = ''/'', response = (Null :: string nullable)\<rparr>)
         (Val ''GET'') = Inr v \<and>
       linkHeaders v = Val [''describedBy'' \<mapsto> ''a''] \<and> meta v = Val ''a''"
proof -
  let ?r = "\<lparr>responseHeaders = [''Link'' \<mapsto> ''<a>; rel=\"describedBy\"''], status = 200,
               responseURL = ''/'', response = (Null :: string nullable)\<rparr>"
  obtain v where v: "SolidResponse spec_webUtil (Val ?r) (Val ''GET'') = Inr v"
    by (simp add: SolidResponse_Val)
  have "headerValue ?r ''Link'' = Val ''<a>; rel=\"describedBy\"''"
    by (simp add: headerValue_def)
  then have l: "linkHeaders v = Val [''describedBy'' \<mapsto> ''a'']"
    using SolidResponse_Val_fields(3) [OF v]
    by (simp add: spec_webUtil_def spec_parseLinkHeader_describedBy)
  with meta_describedBy_fallback [OF v] have "meta v = Val ''a''"
    by auto
  with v l show ?thesis by blast
qed

text \<open>
  C5 as stated fails: the early return on line 22 leaves \<^verbatim>\<open>linkHeaders\<close> unassigned,
  so the view of a null response has no such map.
\<close>

theorem linkHeaders_falsy_counterexample:
  "map_sum id linkHeaders
     (SolidResponse spec_webUtil (Null :: string XMLHttpRequest nullable) (Val ''GET'')) =
   Inr Undefined \<and>
   map_sum id linkHeaders
     (SolidResponse spec_webUtil (Null :: string XMLHttpRequest nullable) (Val ''GET'')) \<noteq>
   Inr (Val Map.empty)"
  by (simp add: SolidResponse_falsy new_object_def)

text \<open>
  C5, amended. For every view constructed with a falsy raw response the
  \<^verbatim>\<open>linkHeaders\<close> field is undefined, not an empty map: reading a relation from it
  throws.
\<close>

theorem linkHeaders_falsy_undefined:
  assumes "\<not> truthy_object xhrResponse" and "SolidResponse w xhrResponse verb = Inr v"
  shows "linkHeaders v = Undefined \<and> linkHeaders v \<noteq> Val Map.empty \<and>
    getProperty (linkHeaders v) k = Inl TypeError"
  using SolidResponse_falsy_fields(4) [OF assms]
  by (simp add: getProperty_def member_def)

text \<open>C5, amended, at the undefined response.\<close>

theorem linkHeaders_falsy_undefined_witness:
  "\<not> truthy_object (Undefined :: string XMLHttpRequest nullable) \<and>
   (\<exists>v. SolidResponse spec_webUtil (Undefined :: string XMLHttpRequest nullable) Undefined = Inr v \<and>
        linkHeaders v = Undefined)"
proof -
  obtain v where v: "SolidResponse spec_webUtil (Undefined :: string XMLHttpRequest nullable) Undefined = Inr v"
    by (simp add: SolidResponse_falsy)
  have f: "\<not> truthy_object (Undefined :: string XMLHttpRequest nullable)"
    by simp
  from linkHeaders_falsy_undefined [OF f v] v f show ?thesis by blast
qed

text \<open>
  C6. \<^verbatim>\<open>isLoggedIn()\<close> hands back the \<^verbatim>\<open>user\<close> field as it is, with no look at its
  shape. The result is truthy if and only if \<^verbatim>\<open>user\<close> is a non-empty string, that is,
  if and only if the response carried a non-empty \<^verbatim>\<open>User\<close> header; it is falsy when
  the header was absent or empty and when there was no response.
\<close>

theorem isLoggedIn_iff:
  assumes "SolidResponse w xhrResponse verb = Inr v"
  shows "\<exists>u. fst (isLoggedIn v) = Inr u \<and> u = user v \<and>
    (truthy_string u \<longleftrightarrow> (\<exists>s. user v = Val s \<and> s \<noteq> [])) \<and>
    (truthy_string u \<longleftrightarrow>
       (\<exists>r s. xhrResponse = Val r \<and> responseHeaders r ''User'' = Some s \<and> s \<noteq> []))"
proof (cases "truthy_object xhrResponse")
  case True
  then obtain r where r: "xhrResponse = Val r"
    by (cases xhrResponse) simp_all
  from assms have "user v = (if truthy_string (headerValue r ''User'') then headerValue r ''User'' else Val [])"
    unfolding r by (rule SolidResponse_Val_fields)
  with r show ?thesis
    by (cases "responseHeaders r ''User''") (auto simp: isLoggedIn_def headerValue_def)
next
  case False
  from SolidResponse_falsy_fields(2) [OF False assms] False show ?thesis
    by (auto simp: isLoggedIn_def)
qed

text \<open>C6 at a \<^verbatim>\<open>User\<close> header that is no URI, at an empty one and at a missing one.\<close>

theorem isLoggedIn_iff_witness:
  "(\<exists>v. SolidResponse spec_webUtil
          (Val \<lparr>responseHeaders = [''User'' \<mapsto> ''not a uri''], status = 200,
                responseURL = ''/'', response = (Null :: string nullable)\<rparr>)
          (Val ''GET'') = Inr v \<and>
        fst (isLoggedIn v) = Inr (Val ''not a uri'') \<and> truthy_string (Val ''not a uri'')) \<and>
   (\<exists>v u. SolidResponse spec_webUtil
          (Val \<lparr>responseHeaders = [''User'' \<mapsto> ''''], status = 200,
                responseURL = ''/'', response = (Null :: string nullable)\<rparr>)
          (Val ''GET'') = Inr v \<and>
        fst (isLoggedIn v) = Inr u \<and> \<not> truthy_string u) \<and>
   (\<exists>v u. SolidResponse spec_webUtil
          (Val \<lparr>responseHeaders = Map.empty, status = 200,
                responseURL = ''/'', response = (Null :: string nullable)\<rparr>)
          (Val ''GET'') = Inr v \<and>
        fst (isLoggedIn v) = Inr u \<and> \<not> truthy_string u)"
proof -
  let ?r1 = "\<lparr>responseHeaders = [''User'' \<mapsto> ''not a uri''], status = 200,
                responseURL = ''/'', response = (Null :: string nullable)\<rparr>"
  let ?r2 = "\<lparr>responseHeaders = [''User'' \<mapsto> ''''], status = 200,
                responseURL = ''/'', response = (Null :: string nullable)\<rparr>"
  let ?r3 = "\<lparr>responseHeaders = Map.empty, status = 200,
                responseURL = ''/'', response = (Null :: string nullable)\<rparr>"
  obtain v1 where v1: "SolidResponse spec_webUtil (Val ?r1) (Val ''GET'') = Inr v1"
    by (simp add: SolidResponse_Val)
  obtain v2 where v2: "SolidResponse spec_webUtil (Val ?r2) (Val ''GET'') = Inr v2"
    by (simp add: SolidResponse_Val)
  obtain v3 where v3: "SolidResponse spec_webUtil (Val ?r3) (Val ''GET'') = Inr v3"
    by (simp add: SolidResponse_Val)
  from isLoggedIn_iff [OF v1] have t1: "truthy_string (user v1)" and i1: "fst (isLoggedIn v1) = Inr (user v1)"
    by auto
  then obtain s where "user v1 = Val s"
    by (cases "user v1") simp_all
  moreover have "user v1 = Val ''not a uri''"
    using SolidResponse_Val_fields(4) [OF v1] by (simp add: headerValue_def)
  ultimately have a: "fst (isLoggedIn v1) = Inr (Val ''not a uri'')"
    using i1 by simp
  from isLoggedIn_iff [OF v2] have b: "\<exists>u. fst (isLoggedIn v2) = Inr u \<and> \<not> truthy_string u"
    by auto
  from isLoggedIn_iff [OF v3] have c: "\<exists>u. fst (isLoggedIn v3) = Inr u \<and> \<not> truthy_string u"
    by auto
  from v1 a v2 b v3 c show ?thesis by auto
qed

text \<open>
  C7. \<^verbatim>\<open>contentType()\<close> returns the value of the \<^verbatim>\<open>Content-Type\<close> header when a raw
  response is present and \<^verbatim>\<open>null\<close> otherwise; \<^verbatim>\<open>raw()\<close> returns the body of the raw
  response when one is present and \<^verbatim>\<open>null\<close> otherwise. Neither throws.
\<close>

theorem contentType_raw_passthrough:
  assumes "SolidResponse w xhrResponse verb = Inr v"
  shows "fst (contentType v) =
      Inr (case xhrResponse of Val r \<Rightarrow> headerValue r ''Content-Type'' | _ \<Rightarrow> Null) \<and>
    fst (raw v) = Inr (case xhrResponse of Val r \<Rightarrow> response r | _ \<Rightarrow> Null)"
proof (cases "truthy_object xhrResponse")
  case True
  then obtain r where r: "xhrResponse = Val r"
    by (cases xhrResponse) simp_all
  with assms have "xhr v = Val r"
    by (simp add: SolidResponse_Val_fields)
  with r show ?thesis
    by (simp add: contentType_def raw_def)
next
  case False
  from SolidResponse_falsy_fields(1) [OF False assms] False show ?thesis
    by (auto simp: contentType_def raw_def falsy_cases)
qed

text \<open>C7 at a Turtle response and at the null response.\<close>

theorem contentType_raw_passthrough_witness:
  "(\<exists>v. SolidResponse spec_webUtil
          (Val \<lparr>responseHeaders = [''Content-Type'' \<mapsto> ''text/turtle''], status = 200,
                responseURL = ''/'', response = Val ''<> a <#Thing> .''\<rparr>)
          (Val ''GET'') = Inr v \<and>
        fst (contentType v) = Inr (Val ''text/turtle'') \<and>
        fst (raw v) = Inr (Val ''<> a <#Thing> .'')) \<and>
   (\<exists>v. SolidResponse spec_webUtil (Null :: string XMLHttpRequest nullable) (Val ''GET'') = Inr v \<and>
        fst (contentType v) = Inr Null \<and> fst (raw v) = Inr Null)"
proof -
  let ?r = "\<lparr>responseHeaders = [''Content-Type'' \<mapsto> ''text/turtle''], status = 200,
                responseURL = ''/'', response = Val ''<> a <#Thing> .''\<rparr>"
  obtain v1 where v1: "SolidResponse spec_webUtil (Val ?r) (Val ''GET'') = Inr v1"
    by (simp add: SolidResponse_Val)
  obtain v2 where v2: "SolidResponse spec_webUtil (Null :: string XMLHttpRequest nullable) (Val ''GET'') = Inr v2"
    by (simp add: SolidResponse_falsy)
  from contentType_raw_passthrough [OF v1]
  have a: "fst (contentType v1) = Inr (Val ''text/turtle'') \<and> fst (raw v1) = Inr (Val ''<> a <#Thing> .'')"
    by (simp add: headerValue_def)
  from contentType_raw_passthrough [OF v2]
  have b: "fst (contentType v2) = Inr Null \<and> fst (raw v2) = Inr Null"
    by simp
  from v1 a v2 b show ?thesis by blast
qed

text \<open>
  The calls in the store agree with the methods on the view as it is at that moment.
\<close>

lemma truthy_object_load [simp]: "truthy_object (load s x) = truthy_object x"
  by (cases x) (simp_all add: load_def)

lemma methods_in_snapshot:
  "fst (contentType_in s this) = fst (contentType (snapshot s this))"
  "fst (exists_in s this) = fst (exists (snapshot s this))"
  "fst (isLoggedIn_in s this) = fst (isLoggedIn (snapshot s this))"
  "fst (raw_in s this) = fst (raw (snapshot s this))"
  by (simp_all add: contentType_in_def contentType_def exists_in_def exists_def
      isLoggedIn_in_def isLoggedIn_def raw_in_def raw_def snapshot_def)

lemma SolidResponse_in_Val:
  "\<exists>v. SolidResponse_in w s (Val a) verb = Inr v \<and> xhr v = Val a \<and>
       user v = (if truthy_string (headerValue (s a) ''User'') then headerValue (s a) ''User''
                 else Val [])"
  by (simp add: SolidResponse_in_def load_def SolidResponse_Val)

text \<open>
  A view constructed from the object at a reference: \<^verbatim>\<open>exists\<close>, \<^verbatim>\<open>contentType\<close> and
  \<^verbatim>\<open>raw\<close> follow the object as the store has it at the call, \<^verbatim>\<open>isLoggedIn\<close> answers
  with the \<^verbatim>\<open>User\<close> header as it was at construction.
\<close>

lemma constructed_view_live:
  assumes "SolidResponse_in w s0 (Val a) verb = Inr v"
  shows "fst (exists_in s v) = Inr (Val (200 \<le> status (s a) \<and> status (s a) < 400))"
    and "fst (contentType_in s v) = Inr (headerValue (s a) ''Content-Type'')"
    and "fst (raw_in s v) = Inr (response (s a))"
    and "fst (isLoggedIn_in s v) =
           Inr (if truthy_string (headerValue (s0 a) ''User'') then headerValue (s0 a) ''User''
                else Val [])"
proof -
  from SolidResponse_in_Val [of w s0 a verb] assms
  have x: "xhr v = Val a"
    and u: "user v = (if truthy_string (headerValue (s0 a) ''User'')
                      then headerValue (s0 a) ''User'' else Val [])"
    by auto
  show "fst (exists_in s v) = Inr (Val (200 \<le> status (s a) \<and> status (s a) < 400))"
    by (simp add: exists_in_def x load_def)
  show "fst (contentType_in s v) = Inr (headerValue (s a) ''Content-Type'')"
    by (simp add: contentType_in_def x load_def)
  show "fst (raw_in s v) = Inr (response (s a))"
    by (simp add: raw_in_def x load_def)
  show "fst (isLoggedIn_in s v) =
           Inr (if truthy_string (headerValue (s0 a) ''User'') then headerValue (s0 a) ''User''
                else Val [])"
    by (simp add: isLoggedIn_in_def u)
qed




text \<open>
  C9. For a view constructed with a falsy raw response, \<^verbatim>\<open>exists()\<close> returns
  \<^verbatim>\<open>null\<close>, the value of the \<^verbatim>\<open>xhr\<close> field on which the conjunction stops: a falsy
  value, and not the Boolean false.
\<close>

theorem exists_null_sentinel:
  assumes "\<not> truthy_object xhrResponse" and "SolidResponse w xhrResponse verb = Inr v"
  shows "xhr v = Null \<and> fst (exists v) = Inr Null \<and> fst (exists v) \<noteq> Inr (Val False) \<and>
    \<not> truthy_boolean Null"
  using SolidResponse_falsy_fields(1) [OF assms]
  by (simp add: exists_def truthy_boolean_def)

text \<open>C9 at the undefined response.\<close>

theorem exists_null_sentinel_witness:
  "\<not> truthy_object (Undefined :: string XMLHttpRequest nullable) \<and>
   (\<exists>v. SolidResponse spec_webUtil (Undefined :: string XMLHttpRequest nullable) (Val ''GET'') = Inr v \<and>
        fst (exists v) = Inr Null)"
proof -
  have f: "\<not> truthy_object (Undefined :: string XMLHttpRequest nullable)"
    by simp
  obtain v where v: "SolidResponse spec_webUtil (Undefined :: string XMLHttpRequest nullable) (Val ''GET'') = Inr v"
    by (simp add: SolidResponse_falsy)
  from exists_null_sentinel [OF f v] f v show ?thesis by blast
qed

text \<open>
  C10. For every view built from a truthy raw response, \<^verbatim>\<open>user\<close> and \<^verbatim>\<open>websocket\<close>
  are strings, empty when the \<^verbatim>\<open>User\<close> or \<^verbatim>\<open>Updates-Via\<close> header is absent, and
  \<^verbatim>\<open>linkHeaders\<close> is a map: the empty one whenever the helper answers with a falsy
  value and, with the helper of the specification, whenever the \<^verbatim>\<open>Link\<close> header is
  absent or holds no bracketed target at all.
\<close>

theorem defaults_by_logical_or:
  assumes "SolidResponse w (Val r) verb = Inr v"
  shows "(\<exists>s. user v = Val s) \<and> (\<exists>s. websocket v = Val s) \<and> (\<exists>m. linkHeaders v = Val m) \<and>
    (responseHeaders r ''User'' = None \<longrightarrow> user v = Val []) \<and>
    (responseHeaders r ''Updates-Via'' = None \<longrightarrow> websocket v = Val []) \<and>
    (\<not> truthy_object (webUtil_parseLinkHeader w (headerValue r ''Link'')) \<longrightarrow>
       linkHeaders v = Val Map.empty) \<and>
    (w = spec_webUtil \<and> responseHeaders r ''Link'' = None \<longrightarrow> linkHeaders v = Val Map.empty) \<and>
    (\<forall>s. w = spec_webUtil \<and> responseHeaders r ''Link'' = Some s \<and> CHR ''<'' \<notin> set s \<longrightarrow>
       linkHeaders v = Val Map.empty)"
proof -
  note f = SolidResponse_Val_fields [OF assms]
  have u: "\<exists>s. user v = Val s"
    unfolding f(4) by (cases "headerValue r ''User''") simp_all
  have u0: "user v = Val []" if "responseHeaders r ''User'' = None"
    unfolding f(4) using that by (simp add: headerValue_def)
  have s: "\<exists>s. websocket v = Val s"
    unfolding f(5) by (cases "headerValue r ''Updates-Via''") simp_all
  have s0: "websocket v = Val []" if "responseHeaders r ''Updates-Via'' = None"
    unfolding f(5) using that by (simp add: headerValue_def)
  have l: "\<exists>m. linkHeaders v = Val m"
    unfolding f(3) by simp
  have l0: "linkHeaders v = Val Map.empty"
    if "\<not> truthy_object (webUtil_parseLinkHeader w (headerValue r ''Link''))"
    unfolding f(3) using that
    by (cases "webUtil_parseLinkHeader w (headerValue r ''Link'')") simp_all
  have l1: "linkHeaders v = Val Map.empty" if "w = spec_webUtil" "responseHeaders r ''Link'' = None"
    unfolding f(3) using that
    by (simp add: spec_webUtil_def headerValue_def spec_parseLinkHeader_absent)
  have l2: "linkHeaders v = Val Map.empty"
    if "w = spec_webUtil" "responseHeaders r ''Link'' = Some s" "CHR ''<'' \<notin> set s" for s
    unfolding f(3) using that
    by (simp add: spec_webUtil_def headerValue_def spec_parseLinkHeader_unparseable)
  from u u0 s s0 l l0 l1 l2 show ?thesis by blast
qed

text \<open>C10 at a response without headers and at one with an unparseable \<^verbatim>\<open>Link\<close>.\<close>

theorem defaults_by_logical_or_witness:
  "(\<exists>v. SolidResponse spec_webUtil
          (Val \<lparr>responseHeaders = Map.empty, status = 200, responseURL = ''/'',
                response = (Null :: string nullable)\<rparr>) (Val ''GET'') = Inr v \<and>
        user v = Val [] \<and> websocket v = Val [] \<and> linkHeaders v = Val Map.empty) \<and>
   (\<exists>v. SolidResponse spec_webUtil
          (Val \<lparr>responseHeaders = [''Link'' \<mapsto> ''nonsense'', ''User'' \<mapsto> ''https://alice.example/#me''],
                status = 200, responseURL = ''/'',
                response = (Null :: string nullable)\<rparr>) (Val ''GET'') = Inr v \<and>
        user v = Val ''https://alice.example/#me'' \<and> linkHeaders v = Val Map.empty)"
proof -
  let ?r1 = "\<lparr>responseHeaders = Map.empty, status = 200, responseURL = ''/'',
                response = (Null :: string nullable)\<rparr>"
  let ?r2 = "\<lparr>responseHeaders = [''Link'' \<mapsto> ''nonsense'', ''User'' \<mapsto> ''https://alice.example/#me''],
                status = 200, responseURL = ''/'',
                response = (Null :: string nullable)\<rparr>"
  obtain v1 where v1: "SolidResponse spec_webUtil (Val ?r1) (Val ''GET'') = Inr v1"
    by (simp add: SolidResponse_Val)
  obtain v2 where v2: "SolidResponse spec_webUtil (Val ?r2) (Val ''GET'') = Inr v2"
    by (simp add: SolidResponse_Val)
  from defaults_by_logical_or [OF v1]
  have a: "user v1 = Val [] \<and> websocket v1 = Val [] \<and> linkHeaders v1 = Val Map.empty"
    by simp
  from defaults_by_logical_or [OF v2]
  have b: "linkHeaders v2 = Val Map.empty"
    by simp
  have c: "user v2 = Val ''https://alice.example/#me''"
    using SolidResponse_Val_fields(4) [OF v2] by (simp add: headerValue_def)
  from v1 a v2 b c show ?thesis by blast
qed

end
